theory Spec2Isabelle
  imports Complex_Main "HOL-Library.AList"
begin

section \<open>The alert manager of \<^verbatim>\<open>API_gateway.py\<close>\<close>

text \<open>
  The development embeds class \<^verbatim>\<open>AlertManager\<close> and the three notifier classes of
  \<^verbatim>\<open>src/API_gateway.py\<close>.

  Python objects are mutable and shared: the dict built by \<^verbatim>\<open>create_alert\<close> is
  stored in \<^verbatim>\<open>active_alerts\<close>, appended to \<^verbatim>\<open>alert_history\<close> and returned to the
  caller, and all three are the same object. The model therefore keeps an explicit
  store: alert objects live in a heap indexed by references, the two containers hold
  references, and the operations return a reference.

  What the code reads from outside (the random identifier, the clock, the outcome of an
  HTTP request) is collected in a record \<open>env\<close> that every operation takes as its first
  argument; what it writes to outside (standard output, HTTP requests) is appended to a
  trace kept in the state. The trace also records every entry into a channel's
  \<^verbatim>\<open>send_alert\<close> or \<^verbatim>\<open>send_resolution\<close>, so that "the channel was invoked" can be
  stated.

  Times are real numbers of seconds: the rounding of Python's floats is not modelled.
  A leading underscore of a Python name is dropped (\<^verbatim>\<open>_update_alert\<close> is
  \<open>update_alert\<close>), and a parameter that shares its name with a field carries a prime.
\<close>

subsection \<open>Data\<close>

type_synonym ref = nat

text \<open>
  The alert dict, with the keys the code gives it. Keys that are absent for part of an
  alert's life are options: \<^verbatim>\<open>count\<close> is set after the duplicate check,
  \<^verbatim>\<open>resolved_at\<close> and \<^verbatim>\<open>resolution_message\<close> by \<^verbatim>\<open>resolve_alert\<close>; the value of
  \<^verbatim>\<open>resolution_message\<close> may itself be Python's None. Timestamps are the ISO strings
  the code stores. The payload \<^verbatim>\<open>details\<close> is never inspected by the manager; it is
  kept as a list of key/value strings.
\<close>

record alert =
  alert_id :: string
  alert_type :: string
  source :: string
  severity :: string
  message :: string
  details :: "(string \<times> string) list"
  environment :: string
  related_entities :: "string list"
  created_at :: string
  updated_at :: string
  status :: string
  count :: "int option"
  resolved_at :: "string option"
  resolution_message :: "string option option"

text \<open>Class \<^verbatim>\<open>AlertSeverity\<close>.\<close>

definition INFO :: string where "INFO = ''info''"
definition WARNING :: string where "WARNING = ''warning''"
definition ERROR :: string where "ERROR = ''error''"
definition CRITICAL :: string where "CRITICAL = ''critical''"

text \<open>
  The exceptions the code raises: \<^verbatim>\<open>ValueError\<close> for an unknown identifier, and the
  plain \<^verbatim>\<open>Exception\<close> a notifier raises when its HTTP request fails.
\<close>

datatype error = ValueError string | Exception string

text \<open>
  The part of the configuration the manager reads (the thresholds and
  \<^verbatim>\<open>auto_resolve_time\<close> are read nowhere). The record is a complete configuration:
  every key the manager reads is present and has a value of its type, as in the
  default configuration; in particular \<^verbatim>\<open>deduplication_window\<close> is a number.
  \<^verbatim>\<open>_load_config\<close> returns the content of a configuration file as it is, so a file
  without that key, or with a value that is not a number, gives a manager whose
  \<^verbatim>\<open>_check_for_duplicate\<close> raises \<^verbatim>\<open>KeyError\<close> or \<^verbatim>\<open>TypeError\<close>; such a configuration
  is not a value of the record, and every statement about a manager below is about
  a manager with a complete configuration.
\<close>

record config =
  email_enabled :: bool
  email_recipients :: "string list"
  slack_enabled :: bool
  slack_webhook_url :: string
  pagerduty_enabled :: bool
  pagerduty_service_key :: string
  deduplication_window :: real

text \<open>A notifier object holds the entry of its configuration that it reads.\<close>

datatype notifier =
    EmailNotifier "string list"
  | SlackNotifier string
  | PagerDutyNotifier string

text \<open>
  The events of the trace: the entry into a channel's method (service name, alert), the
  line a notifier or the dispatcher prints, and an HTTP request (URL, alert).
\<close>

datatype event =
    Call_send_alert string ref
  | Call_send_resolution string ref
  | Print_sending_email "string list" ref
  | Print_sending_resolution_email "string list" ref
  | Print_failed string error
  | Print_failed_resolution string error
  | Requests_post string ref

text \<open>
  The environment of one operation: the value of \<^verbatim>\<open>str(uuid.uuid4())\<close>, the successive
  readings of \<^verbatim>\<open>datetime.utcnow().isoformat()\<close> (numbered from 0 in the order the
  operation takes them), the reading of \<^verbatim>\<open>time.time()\<close>, the function
  \<^verbatim>\<open>datetime.fromisoformat(s).timestamp()\<close> (it depends on the local time zone of the
  process, since the stored strings are naive), and for each URL whether
  \<^verbatim>\<open>requests.post\<close> followed by \<^verbatim>\<open>raise_for_status\<close> raises a \<^verbatim>\<open>RequestException\<close>, and
  with which text.
\<close>

record env =
  uuid4 :: string
  utcnow :: "nat \<Rightarrow> string"
  time_time :: real
  timestamp :: "string \<Rightarrow> real"
  post_raises :: "string \<Rightarrow> string option"

text \<open>
  The state: the fields of the \<^verbatim>\<open>AlertManager\<close> object, the heap of alert objects with
  its allocation pointer, and the trace. The two dicts are association lists in
  insertion order, which is the order Python iterates them in.
\<close>

record manager =
  config :: config
  active_alerts :: "(string \<times> ref) list"
  alert_history :: "ref list"
  notification_services :: "(string \<times> notifier) list"
  heap :: "ref \<Rightarrow> alert"
  next_ref :: ref
  trace :: "event list"

subsection \<open>Construction\<close>

text \<open>The configuration \<^verbatim>\<open>_load_config\<close> falls back to.\<close>

definition default_config :: config where
  "default_config =
     \<lparr>email_enabled = True, email_recipients = [''ops@example.com''],
      slack_enabled = True,
      slack_webhook_url = ''https://hooks.slack.com/services/XXX/YYY/ZZZ'',
      pagerduty_enabled = False, pagerduty_service_key = ''your_pagerduty_service_key'',
      deduplication_window = 300\<rparr>"

definition initialize_notification_services :: "config \<Rightarrow> (string \<times> notifier) list" where
  "initialize_notification_services c =
     (if email_enabled c then [(''email'', EmailNotifier (email_recipients c))] else []) @
     (if slack_enabled c then [(''slack'', SlackNotifier (slack_webhook_url c))] else []) @
     (if pagerduty_enabled c
      then [(''pagerduty'', PagerDutyNotifier (pagerduty_service_key c))] else [])"

definition empty_alert :: alert where
  "empty_alert =
     \<lparr>alert_id = [], alert_type = [], source = [], severity = [], message = [],
      details = [], environment = [], related_entities = [], created_at = [],
      updated_at = [], status = [], count = None, resolved_at = None,
      resolution_message = None\<rparr>"

text \<open>
  \<^verbatim>\<open>AlertManager.__init__\<close>, from the loaded configuration. No alert object is allocated
  yet; the heap's content at an unallocated reference is never read.
\<close>

definition init :: "config \<Rightarrow> manager" where
  "init c =
     \<lparr>config = c, active_alerts = [], alert_history = [],
      notification_services = initialize_notification_services c,
      heap = (\<lambda>_. empty_alert), next_ref = 0, trace = []\<rparr>"

subsection \<open>The notifiers\<close>

definition pagerduty_url :: string where
  "pagerduty_url = ''https://events.pagerduty.com/generic/2010-04-15/create_event.json''"

text \<open>
  \<^verbatim>\<open>requests.post(url, json=payload)\<close> and \<^verbatim>\<open>response.raise_for_status()\<close> inside
  \<^verbatim>\<open>try ... except RequestException as e: raise Exception(prefix + str(e))\<close>: the request
  is attempted, and the failure, if any, is raised again with the prefix.
\<close>

definition post :: "env \<Rightarrow> string \<Rightarrow> string \<Rightarrow> ref \<Rightarrow> event list \<times> error option" where
  "post e prefix url r =
     ([Requests_post url r],
      (case post_raises e url of
         None \<Rightarrow> None
       | Some msg \<Rightarrow> Some (Exception (prefix @ msg))))"

text \<open>
  \<^verbatim>\<open>send_alert\<close> of the three classes: the events it produces and the exception it
  raises, if any. The formatting of subjects and payloads is left out.
\<close>

fun send_alert :: "env \<Rightarrow> notifier \<Rightarrow> ref \<Rightarrow> alert \<Rightarrow> event list \<times> error option" where
  "send_alert e (EmailNotifier recipients) r a = ([Print_sending_email recipients r], None)"
| "send_alert e (SlackNotifier webhook_url) r a =
     post e ''Failed to send Slack notification: '' webhook_url r"
| "send_alert e (PagerDutyNotifier service_key) r a =
     (if severity a \<notin> set [ERROR, CRITICAL] then ([], None)
      else post e ''Failed to create PagerDuty incident: '' pagerduty_url r)"

fun send_resolution :: "env \<Rightarrow> notifier \<Rightarrow> ref \<Rightarrow> alert \<Rightarrow> event list \<times> error option" where
  "send_resolution e (EmailNotifier recipients) r a =
     ([Print_sending_resolution_email recipients r], None)"
| "send_resolution e (SlackNotifier webhook_url) r a =
     post e ''Failed to send Slack resolution notification: '' webhook_url r"
| "send_resolution e (PagerDutyNotifier service_key) r a =
     post e ''Failed to resolve PagerDuty incident: '' pagerduty_url r"

subsection \<open>The dispatcher\<close>

text \<open>
  The loop of \<^verbatim>\<open>_send_notifications\<close> over \<^verbatim>\<open>notification_services.items()\<close>: each
  service is called inside \<^verbatim>\<open>try ... except Exception\<close>, whose handler prints and lets
  the loop go on.
\<close>

fun send_notifications_loop ::
  "env \<Rightarrow> ref \<Rightarrow> alert \<Rightarrow> (string \<times> notifier) list \<Rightarrow> event list" where
  "send_notifications_loop e r a [] = []"
| "send_notifications_loop e r a ((service_name, service) # rest) =
     Call_send_alert service_name r #
     (case send_alert e service r a of
        (evs, None) \<Rightarrow> evs
      | (evs, Some ex) \<Rightarrow> evs @ [Print_failed service_name ex]) @
     send_notifications_loop e r a rest"

definition send_notifications :: "env \<Rightarrow> ref \<Rightarrow> manager \<Rightarrow> manager" where
  "send_notifications e r s =
     (if severity (heap s r) = INFO then s
      else s\<lparr>trace := trace s @
             send_notifications_loop e r (heap s r) (notification_services s)\<rparr>)"

fun send_resolution_notification_loop ::
  "env \<Rightarrow> ref \<Rightarrow> alert \<Rightarrow> (string \<times> notifier) list \<Rightarrow> event list" where
  "send_resolution_notification_loop e r a [] = []"
| "send_resolution_notification_loop e r a ((service_name, service) # rest) =
     Call_send_resolution service_name r #
     (case send_resolution e service r a of
        (evs, None) \<Rightarrow> evs
      | (evs, Some ex) \<Rightarrow> evs @ [Print_failed_resolution service_name ex]) @
     send_resolution_notification_loop e r a rest"

definition send_resolution_notification :: "env \<Rightarrow> ref \<Rightarrow> manager \<Rightarrow> manager" where
  "send_resolution_notification e r s =
     (if severity (heap s r) \<notin> set [ERROR, CRITICAL] then s
      else s\<lparr>trace := trace s @
             send_resolution_notification_loop e r (heap s r) (notification_services s)\<rparr>)"

subsection \<open>Deduplication and update\<close>

text \<open>
  The loop of \<^verbatim>\<open>_check_for_duplicate\<close> over \<^verbatim>\<open>active_alerts.items()\<close>, with its three
  tests in the order of the code; the result is the object found.
\<close>

fun check_for_duplicate_loop ::
  "env \<Rightarrow> real \<Rightarrow> (ref \<Rightarrow> alert) \<Rightarrow> alert \<Rightarrow> (string \<times> ref) list \<Rightarrow> ref option" where
  "check_for_duplicate_loop e dedup_window h a [] = None"
| "check_for_duplicate_loop e dedup_window h a ((existing_id, r) # rest) =
     (if status (h r) \<noteq> ''active''
      then check_for_duplicate_loop e dedup_window h a rest
      else if time_time e - timestamp e (created_at (h r)) > dedup_window
      then check_for_duplicate_loop e dedup_window h a rest
      else if alert_type (h r) = alert_type a \<and> source (h r) = source a \<and>
              severity (h r) = severity a \<and> environment (h r) = environment a
      then Some r
      else check_for_duplicate_loop e dedup_window h a rest)"

definition check_for_duplicate :: "env \<Rightarrow> manager \<Rightarrow> alert \<Rightarrow> ref option" where
  "check_for_duplicate e s a =
     check_for_duplicate_loop e (deduplication_window (config s)) (heap s) a (active_alerts s)"

text \<open>
  An entry of the dict \<^verbatim>\<open>update_data\<close>: a key of the alert with a value of the key's
  type. \<^verbatim>\<open>alert[key] = value\<close> is \<open>set_field\<close>.
\<close>

datatype field =
    Id string
  | Type string
  | Source string
  | Severity string
  | Message string
  | Details "(string \<times> string) list"
  | Environment string
  | Related_entities "string list"
  | Created_at string
  | Updated_at string
  | Status string
  | Count int
  | Resolved_at string
  | Resolution_message "string option"

fun set_field :: "field \<Rightarrow> alert \<Rightarrow> alert" where
  "set_field (Id v) a = a\<lparr>alert_id := v\<rparr>"
| "set_field (Type v) a = a\<lparr>alert_type := v\<rparr>"
| "set_field (Source v) a = a\<lparr>source := v\<rparr>"
| "set_field (Severity v) a = a\<lparr>severity := v\<rparr>"
| "set_field (Message v) a = a\<lparr>message := v\<rparr>"
| "set_field (Details v) a = a\<lparr>details := v\<rparr>"
| "set_field (Environment v) a = a\<lparr>environment := v\<rparr>"
| "set_field (Related_entities v) a = a\<lparr>related_entities := v\<rparr>"
| "set_field (Created_at v) a = a\<lparr>created_at := v\<rparr>"
| "set_field (Updated_at v) a = a\<lparr>updated_at := v\<rparr>"
| "set_field (Status v) a = a\<lparr>status := v\<rparr>"
| "set_field (Count v) a = a\<lparr>count := Some v\<rparr>"
| "set_field (Resolved_at v) a = a\<lparr>resolved_at := Some v\<rparr>"
| "set_field (Resolution_message v) a = a\<lparr>resolution_message := Some v\<rparr>"

definition not_found :: "string \<Rightarrow> error" where
  "not_found alert_id' = ValueError (''Alert with ID '' @ alert_id' @ '' not found'')"

text \<open>
  \<^verbatim>\<open>_update_alert\<close>: the object stored under the identifier is changed in place, entry
  by entry, and then stamped with a new reading of the clock (the argument \<open>now\<close>).
\<close>

definition update_alert ::
  "string \<Rightarrow> string \<Rightarrow> field list \<Rightarrow> manager \<Rightarrow> error + ref \<times> manager" where
  "update_alert now alert_id' update_data s =
     (case map_of (active_alerts s) alert_id' of
        None \<Rightarrow> Inl (not_found alert_id')
      | Some r \<Rightarrow>
          let a = fold set_field update_data (heap s r);
              a = a\<lparr>updated_at := now\<rparr>
          in Inr (r, s\<lparr>heap := (heap s)(r := a)\<rparr>))"

subsection \<open>The public operations\<close>

text \<open>
  The dict \<^verbatim>\<open>create_alert\<close> builds before the duplicate check. An optional argument
  left out or given as None is \<open>None\<close>; the default of \<^verbatim>\<open>environment\<close>,
  \<^verbatim>\<open>"unknown"\<close>, is the caller's to pass.
\<close>

definition new_alert ::
  "env \<Rightarrow> string \<Rightarrow> string \<Rightarrow> string \<Rightarrow> string \<Rightarrow> (string \<times> string) list option \<Rightarrow>
   string \<Rightarrow> string list option \<Rightarrow> alert" where
  "new_alert e alert_type' source' severity' message' details' environment' related_entities' =
     \<lparr>alert_id = uuid4 e, alert_type = alert_type', source = source',
      severity = severity', message = message',
      details = (case details' of None \<Rightarrow> [] | Some d \<Rightarrow> d),
      environment = environment',
      related_entities = (case related_entities' of None \<Rightarrow> [] | Some l \<Rightarrow> l),
      created_at = utcnow e 0, updated_at = utcnow e 1, status = ''active'',
      count = None, resolved_at = None, resolution_message = None\<rparr>"

text \<open>
  \<^verbatim>\<open>create_alert\<close>. When a duplicate is found, the stored object is updated and returned
  and the new dict is dropped; otherwise the new dict becomes an object of the heap,
  is stored under its identifier (replacing an entry with the same key, as a dict
  assignment does), is appended to the history, and is dispatched.
\<close>

definition create_alert ::
  "env \<Rightarrow> string \<Rightarrow> string \<Rightarrow> string \<Rightarrow> string \<Rightarrow> (string \<times> string) list option \<Rightarrow>
   string \<Rightarrow> string list option \<Rightarrow> manager \<Rightarrow> error + ref \<times> manager" where
  "create_alert e alert_type' source' severity' message' details' environment'
       related_entities' s =
     (let a = new_alert e alert_type' source' severity' message' details' environment'
                related_entities'
      in case check_for_duplicate e s a of
           Some d \<Rightarrow>
             (case update_alert (utcnow e 2) (alert_id (heap s d))
                     [Count ((case count (heap s d) of None \<Rightarrow> 1 | Some c \<Rightarrow> c) + 1),
                      Updated_at (updated_at a)] s of
                Inl err \<Rightarrow> Inl err
              | Inr (_, s') \<Rightarrow> Inr (d, s'))
         | None \<Rightarrow>
             let a = a\<lparr>count := Some 1\<rparr>;
                 r = next_ref s;
                 s = s\<lparr>heap := (heap s)(r := a), next_ref := Suc r\<rparr>;
                 s = s\<lparr>active_alerts := AList.update (alert_id a) r (active_alerts s)\<rparr>;
                 s = s\<lparr>alert_history := alert_history s @ [r]\<rparr>;
                 s = send_notifications e r s
             in Inr (r, s))"

text \<open>\<^verbatim>\<open>resolve_alert\<close>; the message is \<open>None\<close> for Python's None.\<close>

definition resolve_alert ::
  "env \<Rightarrow> string \<Rightarrow> string option \<Rightarrow> manager \<Rightarrow> error + ref \<times> manager" where
  "resolve_alert e alert_id' resolution_message' s =
     (case map_of (active_alerts s) alert_id' of
        None \<Rightarrow> Inl (not_found alert_id')
      | Some r \<Rightarrow>
          let a = (heap s r)\<lparr>status := ''resolved''\<rparr>;
              a = a\<lparr>resolved_at := Some (utcnow e 0)\<rparr>;
              a = a\<lparr>resolution_message := Some resolution_message'\<rparr>;
              s = s\<lparr>heap := (heap s)(r := a)\<rparr>;
              s = send_resolution_notification e r s
          in Inr (r, s))"

text \<open>
  \<^verbatim>\<open>get_active_alerts\<close>: the loop over \<^verbatim>\<open>active_alerts.values()\<close>. A filter is applied
  when the argument is truthy, that is, neither None nor the empty string.
\<close>

definition truthy :: "string option \<Rightarrow> bool" where
  "truthy x = (case x of None \<Rightarrow> False | Some v \<Rightarrow> v \<noteq> [])"

fun get_active_alerts_loop ::
  "string option \<Rightarrow> string option \<Rightarrow> string option \<Rightarrow> (ref \<Rightarrow> alert) \<Rightarrow> ref list \<Rightarrow> ref list" where
  "get_active_alerts_loop environment' severity' source' h [] = []"
| "get_active_alerts_loop environment' severity' source' h (r # rest) =
     (if status (h r) \<noteq> ''active''
      then get_active_alerts_loop environment' severity' source' h rest
      else if truthy environment' \<and> Some (environment (h r)) \<noteq> environment'
      then get_active_alerts_loop environment' severity' source' h rest
      else if truthy severity' \<and> Some (severity (h r)) \<noteq> severity'
      then get_active_alerts_loop environment' severity' source' h rest
      else if truthy source' \<and> Some (source (h r)) \<noteq> source'
      then get_active_alerts_loop environment' severity' source' h rest
      else r # get_active_alerts_loop environment' severity' source' h rest)"

definition get_active_alerts ::
  "string option \<Rightarrow> string option \<Rightarrow> string option \<Rightarrow> manager \<Rightarrow> ref list" where
  "get_active_alerts environment' severity' source' s =
     get_active_alerts_loop environment' severity' source' (heap s) (map snd (active_alerts s))"

text \<open>\<^verbatim>\<open>get_alert_by_id\<close>.\<close>

definition get_alert_by_id :: "string \<Rightarrow> manager \<Rightarrow> ref option" where
  "get_alert_by_id alert_id' s = map_of (active_alerts s) alert_id'"

subsection \<open>Vocabulary of the specification\<close>

text \<open>
  The deduplication signature of an alert, and its age as \<^verbatim>\<open>_check_for_duplicate\<close>
  computes it: the reading of \<^verbatim>\<open>time.time()\<close> minus the timestamp of \<^verbatim>\<open>created_at\<close>.
\<close>

definition signature :: "alert \<Rightarrow> string \<times> string \<times> string \<times> string" where
  "signature a = (alert_type a, source a, severity a, environment a)"

definition age :: "env \<Rightarrow> alert \<Rightarrow> real" where
  "age e a = time_time e - timestamp e (created_at a)"

text \<open>
  A stored alert \<open>x\<close> absorbs the candidate \<open>a\<close>: it is active, its age is within the
  deduplication window, and the signatures are equal.
\<close>

definition fresh_duplicate :: "env \<Rightarrow> manager \<Rightarrow> alert \<Rightarrow> alert \<Rightarrow> bool" where
  "fresh_duplicate e s a x \<longleftrightarrow>
     status x = ''active'' \<and> age e x \<le> deduplication_window (config s) \<and>
     signature x = signature a"

text \<open>
  A filter argument of \<^verbatim>\<open>get_active_alerts\<close> lets a value pass when it is None, when it
  is the empty string, or when it equals the value.
\<close>

definition passes :: "string option \<Rightarrow> string \<Rightarrow> bool" where
  "passes f v \<longleftrightarrow> (case f of None \<Rightarrow> True | Some x \<Rightarrow> x = [] \<or> v = x)"

text \<open>The objects the store holds, in the order of the dict.\<close>

definition stored :: "manager \<Rightarrow> ref list" where
  "stored s = map snd (active_alerts s)"

text \<open>
  The invariant of the state: the keys of \<^verbatim>\<open>active_alerts\<close> are distinct (it is a dict),
  every object is stored under its own identifier, was allocated, and carries a
  \<^verbatim>\<open>count\<close>; the objects of the history were allocated.
\<close>

definition wf :: "manager \<Rightarrow> bool" where
  "wf s \<longleftrightarrow>
     distinct (map fst (active_alerts s)) \<and>
     (\<forall>(k, r) \<in> set (active_alerts s).
        alert_id (heap s r) = k \<and> r < next_ref s \<and> count (heap s r) \<noteq> None) \<and>
     (\<forall>r \<in> set (alert_history s). r < next_ref s)"

text \<open>The states the public operations can produce from a fresh manager.\<close>

inductive reachable :: "manager \<Rightarrow> bool" where
  reachable_init: "reachable (init c)"
| reachable_create:
    "reachable s \<Longrightarrow>
     create_alert e alert_type' source' severity' message' details' environment'
       related_entities' s = Inr (r, s') \<Longrightarrow> reachable s'"
| reachable_resolve:
    "reachable s \<Longrightarrow> resolve_alert e alert_id' resolution_message' s = Inr (r, s') \<Longrightarrow>
     reachable s'"

text \<open>The channel invocations recorded in a trace.\<close>

fun send_alert_calls :: "event list \<Rightarrow> (string \<times> ref) list" where
  "send_alert_calls [] = []"
| "send_alert_calls (Call_send_alert n r # evs) = (n, r) # send_alert_calls evs"
| "send_alert_calls (_ # evs) = send_alert_calls evs"

fun send_resolution_calls :: "event list \<Rightarrow> (string \<times> ref) list" where
  "send_resolution_calls [] = []"
| "send_resolution_calls (Call_send_resolution n r # evs) = (n, r) # send_resolution_calls evs"
| "send_resolution_calls (_ # evs) = send_resolution_calls evs"

subsection \<open>Sample inputs\<close>

text \<open>
  A configuration with the three channels enabled, and environments at three moments:
  \<open>env_a\<close> at midnight, \<open>env_b\<close> one second later, \<open>env_c\<close> ten minutes later, each
  with its own identifier; in \<open>env_down\<close> the Slack webhook is unreachable.
\<close>

definition all_channels :: config where
  "all_channels = default_config\<lparr>pagerduty_enabled := True\<rparr>"

definition sample_timestamp :: "string \<Rightarrow> real" where
  "sample_timestamp t =
     (if t = ''2024-01-01T00:00:00'' then 1704067200
      else if t = ''2024-01-01T00:00:01'' then 1704067201
      else if t = ''2024-01-01T00:10:00'' then 1704067800
      else 0)"

definition env_a :: env where
  "env_a = \<lparr>uuid4 = ''id-a'', utcnow = (\<lambda>_. ''2024-01-01T00:00:00''),
            time_time = 1704067200, timestamp = sample_timestamp,
            post_raises = (\<lambda>_. None)\<rparr>"

definition env_b :: env where
  "env_b = \<lparr>uuid4 = ''id-b'', utcnow = (\<lambda>_. ''2024-01-01T00:00:01''),
            time_time = 1704067201, timestamp = sample_timestamp,
            post_raises = (\<lambda>_. None)\<rparr>"

definition env_c :: env where
  "env_c = \<lparr>uuid4 = ''id-c'', utcnow = (\<lambda>_. ''2024-01-01T00:10:00''),
            time_time = 1704067800, timestamp = sample_timestamp,
            post_raises = (\<lambda>_. None)\<rparr>"

definition env_down :: env where
  "env_down = env_a\<lparr>post_raises :=
     (\<lambda>url. if url = slack_webhook_url default_config then Some ''timed out'' else None)\<rparr>"

text \<open>
  The same two moments on a machine whose local time zone is five and a half hours east
  of UTC: \<^verbatim>\<open>time.time()\<close> and \<^verbatim>\<open>datetime.utcnow()\<close> read as before, and
  \<^verbatim>\<open>timestamp()\<close>, which takes a naive datetime for local time, gives 19800 seconds
  less.
\<close>

definition env_east_a :: env where
  "env_east_a = env_a\<lparr>timestamp := (\<lambda>t. sample_timestamp t - 19800)\<rparr>"

definition env_east_b :: env where
  "env_east_b = env_b\<lparr>timestamp := (\<lambda>t. sample_timestamp t - 19800)\<rparr>"

text \<open>
  States for the examples: \<open>state1\<close> holds one critical alert, created at midnight with
  the three channels enabled; \<open>state2\<close> is \<open>state1\<close> after a duplicate arrived one second
  later; \<open>state_resolved\<close> is \<open>state1\<close> after the alert was resolved one second later.
\<close>

definition alert_a :: alert where
  "alert_a = \<lparr>alert_id = ''id-a'', alert_type = ''latency_spike'', source = ''checkout-api'',
      severity = ''critical'', message = ''p99 above threshold'', details = [],
      environment = ''prod'', related_entities = [],
      created_at = ''2024-01-01T00:00:00'', updated_at = ''2024-01-01T00:00:00'',
      status = ''active'', count = Some 1, resolved_at = None, resolution_message = None\<rparr>"

definition state1 :: manager where
  "state1 = \<lparr>config = all_channels, active_alerts = [(''id-a'', 0)], alert_history = [0],
     notification_services = initialize_notification_services all_channels,
     heap = (\<lambda>_. empty_alert)(0 := alert_a), next_ref = 1,
     trace = [Call_send_alert ''email'' 0, Print_sending_email [''ops@example.com''] 0,
              Call_send_alert ''slack'' 0, Requests_post (slack_webhook_url default_config) 0,
              Call_send_alert ''pagerduty'' 0, Requests_post pagerduty_url 0]\<rparr>"

definition state2 :: manager where
  "state2 = state1\<lparr>heap := (heap state1)
      (0 := alert_a\<lparr>count := Some 2, updated_at := ''2024-01-01T00:00:01''\<rparr>)\<rparr>"

definition state_resolved :: manager where
  "state_resolved = state1
     \<lparr>heap := (heap state1)
        (0 := alert_a\<lparr>status := ''resolved'', resolved_at := Some ''2024-01-01T00:00:01'',
                      resolution_message := Some (Some ''rolled back deploy'')\<rparr>),
      trace := trace state1 @
        [Call_send_resolution ''email'' 0, Print_sending_resolution_email [''ops@example.com''] 0,
         Call_send_resolution ''slack'' 0, Requests_post (slack_webhook_url default_config) 0,
         Call_send_resolution ''pagerduty'' 0, Requests_post pagerduty_url 0]\<rparr>"

text \<open>
  \<open>state_c\<close> is \<open>state1\<close> after an alert of the same signature arrived ten minutes later;
  \<open>state_w\<close> is \<open>state1\<close> had the alert been a warning; \<open>state_down\<close> is \<open>state1\<close> had
  the Slack webhook been unreachable.
\<close>

definition state_c :: manager where
  "state_c = state1
     \<lparr>active_alerts := [(''id-a'', 0), (''id-c'', 1)], alert_history := [0, 1],
      heap := (heap state1)
        (1 := alert_a\<lparr>alert_id := ''id-c'', message := ''again'',
                      created_at := ''2024-01-01T00:10:00'',
                      updated_at := ''2024-01-01T00:10:00''\<rparr>),
      next_ref := 2,
      trace := trace state1 @
        [Call_send_alert ''email'' 1, Print_sending_email [''ops@example.com''] 1,
         Call_send_alert ''slack'' 1, Requests_post (slack_webhook_url default_config) 1,
         Call_send_alert ''pagerduty'' 1, Requests_post pagerduty_url 1]\<rparr>"

text \<open>\<open>state_east\<close> holds the alert of \<open>state1\<close> and a second one of the same signature.\<close>

definition state_east :: manager where
  "state_east = state1
     \<lparr>active_alerts := [(''id-a'', 0), (''id-b'', 1)], alert_history := [0, 1],
      heap := (heap state1)
        (1 := alert_a\<lparr>alert_id := ''id-b'', message := ''still slow'',
                      created_at := ''2024-01-01T00:00:01'',
                      updated_at := ''2024-01-01T00:00:01''\<rparr>),
      next_ref := 2,
      trace := trace state1 @
        [Call_send_alert ''email'' 1, Print_sending_email [''ops@example.com''] 1,
         Call_send_alert ''slack'' 1, Requests_post (slack_webhook_url default_config) 1,
         Call_send_alert ''pagerduty'' 1, Requests_post pagerduty_url 1]\<rparr>"

definition state_w :: manager where
  "state_w = state1
     \<lparr>heap := (heap state1)(0 := alert_a\<lparr>severity := ''warning''\<rparr>),
      trace := [Call_send_alert ''email'' 0, Print_sending_email [''ops@example.com''] 0,
                Call_send_alert ''slack'' 0, Requests_post (slack_webhook_url default_config) 0,
                Call_send_alert ''pagerduty'' 0]\<rparr>"

definition state_down :: manager where
  "state_down = state1
     \<lparr>trace := [Call_send_alert ''email'' 0, Print_sending_email [''ops@example.com''] 0,
                Call_send_alert ''slack'' 0, Requests_post (slack_webhook_url default_config) 0,
                Print_failed ''slack'' (Exception ''Failed to send Slack notification: timed out''),
                Call_send_alert ''pagerduty'' 0, Requests_post pagerduty_url 0]\<rparr>"

section \<open>Properties\<close>

subsection \<open>The duplicate check\<close>

lemma check_loop_Some:
  "check_for_duplicate_loop e w h a xs = Some d \<Longrightarrow>
     d \<in> set (map snd xs) \<and> status (h d) = ''active'' \<and> time_time e - timestamp e (created_at (h d)) \<le> w \<and>
     signature (h d) = signature a"
  by (induction xs) (auto simp: signature_def split: if_splits)

lemma check_loop_None:
  "check_for_duplicate_loop e w h a xs = None \<longleftrightarrow>
     (\<forall>r \<in> set (map snd xs). \<not> (status (h r) = ''active'' \<and> time_time e - timestamp e (created_at (h r)) \<le> w \<and>
     signature (h r) = signature a))"
  by (induction xs) (auto simp: signature_def split: if_splits)

lemma check_for_duplicate_Some:
  "check_for_duplicate e s a = Some d \<Longrightarrow> d \<in> set (stored s) \<and> fresh_duplicate e s a (heap s d)"
  using check_loop_Some[of e "deduplication_window (config s)" "heap s" a "active_alerts s" d]
  by (simp add: check_for_duplicate_def stored_def fresh_duplicate_def age_def)

lemma check_for_duplicate_None:
  "check_for_duplicate e s a = None \<longleftrightarrow> (\<forall>r \<in> set (stored s). \<not> fresh_duplicate e s a (heap s r))"
  using check_loop_None[of e "deduplication_window (config s)" "heap s" a "active_alerts s"]
  by (simp add: check_for_duplicate_def stored_def fresh_duplicate_def age_def)

lemma wf_lookup:
  "wf s \<Longrightarrow> d \<in> set (stored s) \<Longrightarrow> map_of (active_alerts s) (alert_id (heap s d)) = Some d"
  by (auto simp: wf_def stored_def)

lemma wf_count:
  "wf s \<Longrightarrow> d \<in> set (stored s) \<Longrightarrow> \<exists>c. count (heap s d) = Some c"
  by (auto simp: wf_def stored_def)

lemma create_alert_merge:
  assumes "wf s" and "check_for_duplicate e s (new_alert e ty src sev msg det envt rel) = Some d"
    and "count (heap s d) = Some c"
  shows "create_alert e ty src sev msg det envt rel s =
     Inr (d, s\<lparr>heap := (heap s)(d := (heap s d)\<lparr>count := Some (c + 1), updated_at := utcnow e 2\<rparr>)\<rparr>)"
  using assms wf_lookup[OF assms(1), of d] check_for_duplicate_Some[OF assms(2)]
  by (simp add: create_alert_def update_alert_def Let_def)

lemma create_alert_new:
  assumes "check_for_duplicate e s (new_alert e ty src sev msg det envt rel) = None"
  shows "create_alert e ty src sev msg det envt rel s =
     Inr (next_ref s, send_notifications e (next_ref s)
        (s\<lparr>heap := (heap s)(next_ref s := (new_alert e ty src sev msg det envt rel)\<lparr>count := Some 1\<rparr>),
           next_ref := Suc (next_ref s),
           active_alerts := AList.update (uuid4 e) (next_ref s) (active_alerts s),
           alert_history := alert_history s @ [next_ref s]\<rparr>))"
  using assms
  by (simp add: create_alert_def Let_def new_alert_def)

subsection \<open>The invariant\<close>

lemma send_notifications_fields [simp]:
  "config (send_notifications e r s) = config s"
  "active_alerts (send_notifications e r s) = active_alerts s"
  "alert_history (send_notifications e r s) = alert_history s"
  "notification_services (send_notifications e r s) = notification_services s"
  "heap (send_notifications e r s) = heap s"
  "next_ref (send_notifications e r s) = next_ref s"
  by (simp_all add: send_notifications_def)

lemma send_resolution_notification_fields [simp]:
  "config (send_resolution_notification e r s) = config s"
  "active_alerts (send_resolution_notification e r s) = active_alerts s"
  "alert_history (send_resolution_notification e r s) = alert_history s"
  "notification_services (send_resolution_notification e r s) = notification_services s"
  "heap (send_resolution_notification e r s) = heap s"
  "next_ref (send_resolution_notification e r s) = next_ref s"
  by (simp_all add: send_resolution_notification_def)

lemma wf_init: "wf (init c)"
  by (simp add: wf_def init_def)

lemma wf_trace [simp]: "wf (send_notifications e r s) = wf s"
  "wf (send_resolution_notification e r s) = wf s"
  by (simp_all add: wf_def)

lemma in_update_cases:
  "(k', r') \<in> set (AList.update k v xs) \<Longrightarrow> (k', r') = (k, v) \<or> (k', r') \<in> set xs"
  by (induction xs) (auto split: if_splits)

lemma wf_insert:
  assumes "wf s" and "count a \<noteq> None"
  shows "wf (s\<lparr>heap := (heap s)(next_ref s := a), next_ref := Suc (next_ref s),
              active_alerts := AList.update (alert_id a) (next_ref s) (active_alerts s),
              alert_history := alert_history s @ [next_ref s]\<rparr>)"
  using assms
  by (auto simp: wf_def distinct_update less_Suc_eq dest!: in_update_cases)

lemma wf_modify:
  assumes "wf s" and "alert_id a = alert_id (heap s r)" and "count a \<noteq> None"
  shows "wf (s\<lparr>heap := (heap s)(r := a)\<rparr>)"
  using assms by (auto simp: wf_def)

lemma wf_create_alert:
  assumes "wf s" and "create_alert e ty src sev msg det envt rel s = Inr (r, s')"
  shows "wf s'"
proof (cases "check_for_duplicate e s (new_alert e ty src sev msg det envt rel)")
  case None
  show ?thesis
    using assms(2) wf_insert[OF assms(1), of "(new_alert e ty src sev msg det envt rel)\<lparr>count := Some 1\<rparr>"]
    unfolding create_alert_new[OF None]
    by (auto simp: new_alert_def)
next
  case (Some d)
  then have d: "d \<in> set (stored s)" by (simp add: check_for_duplicate_Some)
  obtain c where c: "count (heap s d) = Some c" using wf_count[OF assms(1) d] by blast
  show ?thesis
    using assms(2) wf_modify[OF assms(1), of "(heap s d)\<lparr>count := Some (c + 1), updated_at := utcnow e 2\<rparr>" d]
    unfolding create_alert_merge[OF assms(1) Some c]
    by auto
qed

lemma wf_resolve_alert:
  assumes "wf s" and "resolve_alert e i m s = Inr (r, s')"
  shows "wf s'"
proof (cases "map_of (active_alerts s) i")
  case None
  then show ?thesis using assms(2) by (simp add: resolve_alert_def)
next
  case (Some x)
  then have "(i, x) \<in> set (active_alerts s)" by (rule map_of_SomeD)
  then have "count (heap s x) \<noteq> None" using assms(1) by (auto simp: wf_def)
  then show ?thesis
    using assms(2) Some
      wf_modify[OF assms(1), of "(heap s x)\<lparr>status := ''resolved'', resolved_at := Some (utcnow e 0), resolution_message := Some m\<rparr>" x]
    by (auto simp: resolve_alert_def Let_def)
qed

lemma reachable_wf: "reachable s \<Longrightarrow> wf s"
  by (induction rule: reachable.induct) (auto intro: wf_init wf_create_alert wf_resolve_alert)

subsection \<open>Evaluation of the examples\<close>

lemmas eval_defs = create_alert_def new_alert_def check_for_duplicate_def update_alert_def
  resolve_alert_def send_notifications_def send_resolution_notification_def init_def
  initialize_notification_services_def all_channels_def default_config_def
  env_a_def env_b_def env_c_def env_down_def sample_timestamp_def post_def
  INFO_def WARNING_def ERROR_def CRITICAL_def Let_def pagerduty_url_def not_found_def
  state1_def alert_a_def state2_def state_resolved_def
  state_c_def state_w_def state_down_def
  state_east_def env_east_a_def env_east_b_def

lemma state1_reached: "create_alert env_a ''latency_spike'' ''checkout-api'' ''critical''
      ''p99 above threshold'' None ''prod'' None (init all_channels) = Inr (0, state1)"
  by (simp add: eval_defs)

lemma reachable_state1: "reachable state1"
  by (rule reachable_create[OF reachable_init state1_reached])

subsection \<open>Creation\<close>

lemma stored_update_sub:
  "set (stored (s\<lparr>active_alerts := AList.update k r (active_alerts s)\<rparr>)) \<subseteq> insert r (set (stored s))"
  by (auto simp: stored_def dest!: in_update_cases)

lemma wf_stored_less: "wf s \<Longrightarrow> x \<in> set (stored s) \<Longrightarrow> x < next_ref s"
  by (auto simp: wf_def stored_def)

lemma map_of_update_same: "map_of (AList.update k v xs) k = Some v"
  by (simp add: update_conv')

lemma in_stored_update: "r \<in> set (map snd (AList.update k r xs))"
  by (induction xs) auto

lemma create_alert_merge_props:
  assumes "wf s"
    and ex: "\<exists>x \<in> set (stored s). fresh_duplicate e s (new_alert e ty src sev msg det envt rel) (heap s x)"
  shows "\<exists>d s' c. create_alert e ty src sev msg det envt rel s = Inr (d, s') \<and>
          d \<in> set (stored s) \<and>
          fresh_duplicate e s (new_alert e ty src sev msg det envt rel) (heap s d) \<and>
          active_alerts s' = active_alerts s \<and> alert_history s' = alert_history s \<and>
          alert_id (heap s' d) = alert_id (heap s d) \<and>
          count (heap s d) = Some c \<and> count (heap s' d) = Some (c + 1) \<and>
          status (heap s' d) = ''active'' \<and> (\<forall>x. x \<noteq> d \<longrightarrow> heap s' x = heap s x)"
proof -
  let ?a = "new_alert e ty src sev msg det envt rel"
  from ex have "check_for_duplicate e s ?a \<noteq> None"
    by (simp add: check_for_duplicate_None)
  then obtain d where d: "check_for_duplicate e s ?a = Some d" by blast
  then have in_store: "d \<in> set (stored s)" and fresh: "fresh_duplicate e s ?a (heap s d)"
    by (simp_all add: check_for_duplicate_Some)
  obtain c where c: "count (heap s d) = Some c"
    using wf_count[OF assms(1) in_store] by blast
  have act: "status (heap s d) = ''active''"
    using fresh by (simp add: fresh_duplicate_def)
  show ?thesis
    using create_alert_merge[OF assms(1) d c] in_store fresh c act by simp
qed

lemma create_alert_new_props:
  assumes "wf s"
    and no: "\<not> (\<exists>x \<in> set (stored s). fresh_duplicate e s (new_alert e ty src sev msg det envt rel) (heap s x))"
  shows "\<exists>s'. create_alert e ty src sev msg det envt rel s = Inr (next_ref s, s') \<and>
          next_ref s \<notin> set (stored s) \<and>
          active_alerts s' = AList.update (uuid4 e) (next_ref s) (active_alerts s) \<and>
          map_of (active_alerts s') (uuid4 e) = Some (next_ref s) \<and>
          alert_history s' = alert_history s @ [next_ref s] \<and>
          heap s' (next_ref s) = (new_alert e ty src sev msg det envt rel)\<lparr>count := Some 1\<rparr> \<and>
          status (heap s' (next_ref s)) = ''active'' \<and>
          (\<forall>x. x \<noteq> next_ref s \<longrightarrow> heap s' x = heap s x)"
proof -
  let ?a = "new_alert e ty src sev msg det envt rel"
  from no have none: "check_for_duplicate e s ?a = None"
    by (simp add: check_for_duplicate_None)
  have "next_ref s \<notin> set (stored s)"
    using wf_stored_less[OF assms(1), of "next_ref s"] by auto
  then show ?thesis
    unfolding create_alert_new[OF none]
    by (simp add: map_of_update_same) (simp add: new_alert_def)
qed

lemma signature_new_alert [simp]:
  "signature (new_alert e ty src sev msg det envt rel) = (ty, src, sev, envt)"
  by (simp add: signature_def new_alert_def)

lemma fresh_duplicate_later:
  assumes "fresh_duplicate e2 s2 (new_alert e2 ty src sev msg2 det2 envt rel2) x"
    and "timestamp e2 = timestamp e" and "time_time e \<le> time_time e2"
    and "config s2 = config s"
  shows "fresh_duplicate e s (new_alert e ty src sev msg det envt rel) x"
  using assms by (simp add: fresh_duplicate_def age_def)

lemma create_alert_twice:
  assumes wf: "wf s"
    and no: "\<not> (\<exists>x \<in> set (stored s).
                 fresh_duplicate e s (new_alert e ty src sev msg det envt rel) (heap s x))"
    and ts: "timestamp e2 = timestamp e" and mono: "time_time e \<le> time_time e2"
    and within: "time_time e2 - timestamp e2 (utcnow e 0) \<le> deduplication_window (config s)"
  shows "\<exists>s1 s2. create_alert e ty src sev msg det envt rel s = Inr (next_ref s, s1) \<and>
           create_alert e2 ty src sev msg2 det2 envt rel2 s1 = Inr (next_ref s, s2) \<and>
           active_alerts s2 = active_alerts s1 \<and>
           alert_id (heap s2 (next_ref s)) = uuid4 e \<and>
           status (heap s2 (next_ref s)) = ''active'' \<and>
           count (heap s2 (next_ref s)) = Some 2"
proof -
  let ?a = "new_alert e ty src sev msg det envt rel"
  let ?b = "new_alert e2 ty src sev msg2 det2 envt rel2"
  let ?r = "next_ref s"
  let ?s1 = "send_notifications e ?r
        (s\<lparr>heap := (heap s)(?r := ?a\<lparr>count := Some 1\<rparr>),
           next_ref := Suc ?r,
           active_alerts := AList.update (uuid4 e) ?r (active_alerts s),
           alert_history := alert_history s @ [?r]\<rparr>)"
  from no have none: "check_for_duplicate e s ?a = None"
    by (simp add: check_for_duplicate_None)
  have first: "create_alert e ty src sev msg det envt rel s = Inr (?r, ?s1)"
    by (rule create_alert_new[OF none])
  have wf1: "wf ?s1" by (rule wf_create_alert[OF wf first])
  have cfg: "config ?s1 = config s" by simp
  have h_r: "heap ?s1 ?r = ?a\<lparr>count := Some 1\<rparr>" by simp
  have h_other: "x \<noteq> ?r \<Longrightarrow> heap ?s1 x = heap s x" for x by simp
  have r_in: "?r \<in> set (stored ?s1)"
    by (simp add: stored_def in_stored_update del: set_map)
  have sub: "set (stored ?s1) \<subseteq> insert ?r (set (stored s))"
    by (auto simp: stored_def dest!: in_update_cases)
  have fresh_r: "fresh_duplicate e2 ?s1 ?b (heap ?s1 ?r)"
    using within by (simp add: fresh_duplicate_def age_def signature_def new_alert_def)
  then have "\<exists>x \<in> set (stored ?s1). fresh_duplicate e2 ?s1 ?b (heap ?s1 x)"
    using r_in by blast
  from create_alert_merge_props[OF wf1 this]
  obtain d s2 c where second: "create_alert e2 ty src sev msg2 det2 envt rel2 ?s1 = Inr (d, s2)"
    and d_in: "d \<in> set (stored ?s1)"
    and d_fresh: "fresh_duplicate e2 ?s1 ?b (heap ?s1 d)"
    and same: "active_alerts s2 = active_alerts ?s1"
    and ident: "alert_id (heap s2 d) = alert_id (heap ?s1 d)"
    and c: "count (heap ?s1 d) = Some c" and c': "count (heap s2 d) = Some (c + 1)"
    and act: "status (heap s2 d) = ''active''"
    by blast
  have d_r: "d = ?r"
  proof (rule ccontr)
    assume neq: "d \<noteq> ?r"
    then have "d \<in> set (stored s)" using d_in sub by blast
    moreover have "fresh_duplicate e s ?a (heap s d)"
      using fresh_duplicate_later[OF d_fresh ts mono cfg] h_other[OF neq] by simp
    ultimately show False using no by blast
  qed
  have "c = 1" using c h_r d_r by simp
  then show ?thesis
    using first second same ident c' act d_r h_r by (auto simp: new_alert_def)
qed

subsection \<open>The dispatcher\<close>

lemma send_alert_calls_append [simp]:
  "send_alert_calls (xs @ ys) = send_alert_calls xs @ send_alert_calls ys"
  by (induction xs rule: send_alert_calls.induct) simp_all

lemma send_resolution_calls_append [simp]:
  "send_resolution_calls (xs @ ys) = send_resolution_calls xs @ send_resolution_calls ys"
  by (induction xs rule: send_resolution_calls.induct) simp_all

lemma send_alert_no_calls [simp]: "send_alert_calls (fst (send_alert e svc r a)) = []"
  by (cases svc) (simp_all add: post_def)

lemma send_resolution_no_calls [simp]:
  "send_resolution_calls (fst (send_resolution e svc r a)) = []"
  by (cases svc) (simp_all add: post_def)

lemma send_notifications_loop_calls:
  "send_alert_calls (send_notifications_loop e r a svcs) = map (\<lambda>(n, _). (n, r)) svcs"
proof (induction svcs)
  case Nil
  show ?case by simp
next
  case (Cons p svcs)
  obtain n svc where p: "p = (n, svc)" by (cases p)
  obtain evs ex where out: "send_alert e svc r a = (evs, ex)" by (cases "send_alert e svc r a")
  have "send_alert_calls evs = []"
    using send_alert_no_calls[of e svc r a] out by simp
  then show ?case using Cons p out by (cases ex) simp_all
qed

lemma send_resolution_notification_loop_calls:
  "send_resolution_calls (send_resolution_notification_loop e r a svcs) =
     map (\<lambda>(n, _). (n, r)) svcs"
proof (induction svcs)
  case Nil
  show ?case by simp
next
  case (Cons p svcs)
  obtain n svc where p: "p = (n, svc)" by (cases p)
  obtain evs ex where out: "send_resolution e svc r a = (evs, ex)"
    by (cases "send_resolution e svc r a")
  have "send_resolution_calls evs = []"
    using send_resolution_no_calls[of e svc r a] out by simp
  then show ?case using Cons p out by (cases ex) simp_all
qed

lemma send_notifications_loop_caught:
  "(n, svc) \<in> set svcs \<Longrightarrow> snd (send_alert e svc r a) = Some ex \<Longrightarrow>
   Print_failed n ex \<in> set (send_notifications_loop e r a svcs)"
proof (induction svcs)
  case Nil
  then show ?case by simp
next
  case (Cons p svcs)
  obtain n' svc' where p: "p = (n', svc')" by (cases p)
  obtain evs ex' where out: "send_alert e svc' r a = (evs, ex')"
    by (cases "send_alert e svc' r a")
  show ?case
  proof (cases "(n, svc) = (n', svc')")
    case True
    then show ?thesis using Cons.prems(2) p out by simp
  next
    case False
    then have "Print_failed n ex \<in> set (send_notifications_loop e r a svcs)"
      using Cons p by auto
    then show ?thesis using p by simp
  qed
qed

lemma send_resolution_notification_loop_caught:
  "(n, svc) \<in> set svcs \<Longrightarrow> snd (send_resolution e svc r a) = Some ex \<Longrightarrow>
   Print_failed_resolution n ex \<in> set (send_resolution_notification_loop e r a svcs)"
proof (induction svcs)
  case Nil
  then show ?case by simp
next
  case (Cons p svcs)
  obtain n' svc' where p: "p = (n', svc')" by (cases p)
  obtain evs ex' where out: "send_resolution e svc' r a = (evs, ex')"
    by (cases "send_resolution e svc' r a")
  show ?case
  proof (cases "(n, svc) = (n', svc')")
    case True
    then show ?thesis using Cons.prems(2) p out by simp
  next
    case False
    then have "Print_failed_resolution n ex \<in> set (send_resolution_notification_loop e r a svcs)"
      using Cons p by auto
    then show ?thesis using p by simp
  qed
qed

lemma send_notifications_loop_append:
  "send_notifications_loop e r a (xs @ ys) =
     send_notifications_loop e r a xs @ send_notifications_loop e r a ys"
  by (induction xs) (auto split: prod.splits option.splits)

subsection \<open>Totality of creation, and the filter\<close>

lemma create_alert_total:
  assumes "wf s"
  shows "\<exists>r s'. create_alert e ty src sev msg det envt rel s = Inr (r, s') \<and>
           severity (heap s' r) = sev"
proof (cases "check_for_duplicate e s (new_alert e ty src sev msg det envt rel)")
  case None
  show ?thesis
    unfolding create_alert_new[OF None] by (simp add: new_alert_def)
next
  case (Some d)
  then have d: "d \<in> set (stored s)"
    and f: "fresh_duplicate e s (new_alert e ty src sev msg det envt rel) (heap s d)"
    by (simp_all add: check_for_duplicate_Some)
  obtain c where c: "count (heap s d) = Some c" using wf_count[OF assms d] by blast
  show ?thesis
    using create_alert_merge[OF assms Some c] f
    by (simp add: fresh_duplicate_def signature_def new_alert_def)
qed

lemma get_active_alerts_loop_filter:
  "get_active_alerts_loop f1 f2 f3 h rs =
     filter (\<lambda>r. status (h r) = ''active'' \<and> passes f1 (environment (h r)) \<and>
                  passes f2 (severity (h r)) \<and> passes f3 (source (h r))) rs"
  by (induction rs) (auto simp: passes_def truthy_def split: option.splits)

subsection \<open>Deduplication by the computed age\<close>

text \<open>
  On a state that satisfies the invariant, and so in every reachable state,
  \<^verbatim>\<open>create_alert\<close> behaves in one of two ways. If some stored alert
  is active, has a computed age within the deduplication window and has the signature
  of the candidate, no record is created: the call returns a stored alert \<open>d\<close> with these
  properties, the store and the history are the same, the identifier of \<open>d\<close> is the same,
  its count is one more than before, and no other object changes. If there is no such
  alert (no stored alert has the signature, or those that have it are resolved or older
  than the window), a new object is allocated, stored under the new identifier and
  appended to the history; it is active and its count is 1, and no other object changes.
  Hence two calls with the same signature, the second within the window of the first
  and with a clock that has not gone back, return the same record, which is stored once
  and has count 2. The age is the one the code computes: the reading of \<^verbatim>\<open>time.time()\<close>
  minus the timestamp of the stored \<^verbatim>\<open>created_at\<close>.
\<close>

lemma create_alert_dedup:
  assumes "wf s"
  shows
    "((\<exists>x \<in> set (stored s).
         fresh_duplicate e s (new_alert e ty src sev msg det envt rel) (heap s x)) \<longrightarrow>
      (\<exists>d s' c. create_alert e ty src sev msg det envt rel s = Inr (d, s') \<and>
          d \<in> set (stored s) \<and>
          fresh_duplicate e s (new_alert e ty src sev msg det envt rel) (heap s d) \<and>
          active_alerts s' = active_alerts s \<and> alert_history s' = alert_history s \<and>
          alert_id (heap s' d) = alert_id (heap s d) \<and>
          count (heap s d) = Some c \<and> count (heap s' d) = Some (c + 1) \<and>
          status (heap s' d) = ''active'' \<and> (\<forall>x. x \<noteq> d \<longrightarrow> heap s' x = heap s x))) \<and>
     (\<not> (\<exists>x \<in> set (stored s).
         fresh_duplicate e s (new_alert e ty src sev msg det envt rel) (heap s x)) \<longrightarrow>
      (\<exists>s'. create_alert e ty src sev msg det envt rel s = Inr (next_ref s, s') \<and>
          next_ref s \<notin> set (stored s) \<and>
          active_alerts s' = AList.update (uuid4 e) (next_ref s) (active_alerts s) \<and>
          map_of (active_alerts s') (uuid4 e) = Some (next_ref s) \<and>
          alert_history s' = alert_history s @ [next_ref s] \<and>
          heap s' (next_ref s) = (new_alert e ty src sev msg det envt rel)\<lparr>count := Some 1\<rparr> \<and>
          status (heap s' (next_ref s)) = ''active'' \<and>
          (\<forall>x. x \<noteq> next_ref s \<longrightarrow> heap s' x = heap s x))) \<and>
     (\<not> (\<exists>x \<in> set (stored s).
         fresh_duplicate e s (new_alert e ty src sev msg det envt rel) (heap s x)) \<and>
      timestamp e2 = timestamp e \<and> time_time e \<le> time_time e2 \<and>
      time_time e2 - timestamp e2 (utcnow e 0) \<le> deduplication_window (config s) \<longrightarrow>
      (\<exists>s1 s2. create_alert e ty src sev msg det envt rel s = Inr (next_ref s, s1) \<and>
           create_alert e2 ty src sev msg2 det2 envt rel2 s1 = Inr (next_ref s, s2) \<and>
           active_alerts s2 = active_alerts s1 \<and>
           alert_id (heap s2 (next_ref s)) = uuid4 e \<and>
           status (heap s2 (next_ref s)) = ''active'' \<and>
           count (heap s2 (next_ref s)) = Some 2))"
  using create_alert_merge_props[OF assms, of e ty src sev msg det envt rel]
    create_alert_new_props[OF assms, of e ty src sev msg det envt rel]
    create_alert_twice[OF assms, of e ty src sev msg det envt rel e2 msg2 det2 rel2]
  by blast

text \<open>
  With \<^verbatim>\<open>timestamp()\<close> as it is when the local zone is UTC: the duplicate of \<open>state1\<close> one
  second later is merged, and the one ten minutes later becomes a second record.
\<close>

lemma create_alert_dedup_example:
  "wf state1 \<and>
   (\<exists>x \<in> set (stored state1). fresh_duplicate env_b state1
       (new_alert env_b ''latency_spike'' ''checkout-api'' ''critical'' ''still slow'' None ''prod'' None)
       (heap state1 x)) \<and>
   create_alert env_b ''latency_spike'' ''checkout-api'' ''critical'' ''still slow'' None ''prod'' None
     state1 = Inr (0, state2) \<and>
   count (heap state1 0) = Some 1 \<and> count (heap state2 0) = Some 2 \<and>
   \<not> (\<exists>x \<in> set (stored state1). fresh_duplicate env_c state1
       (new_alert env_c ''latency_spike'' ''checkout-api'' ''critical'' ''again'' None ''prod'' None)
       (heap state1 x)) \<and>
   create_alert env_c ''latency_spike'' ''checkout-api'' ''critical'' ''again'' None ''prod'' None
     state1 = Inr (1, state_c) \<and>
   active_alerts state_c = [(''id-a'', 0), (''id-c'', 1)] \<and>
   count (heap state_c 1) = Some 1 \<and> status (heap state_c 1) = ''active'' \<and>
   wf (init all_channels) \<and>
   create_alert env_a ''latency_spike'' ''checkout-api'' ''critical'' ''p99 above threshold'' None
     ''prod'' None (init all_channels) = Inr (0, state1) \<and>
   active_alerts state2 = active_alerts state1"
proof -
  have w: "wf state1" by (simp add: wf_def eval_defs)
  have b: "\<exists>x \<in> set (stored state1). fresh_duplicate env_b state1
       (new_alert env_b ''latency_spike'' ''checkout-api'' ''critical'' ''still slow'' None ''prod'' None)
       (heap state1 x)"
    by (simp add: stored_def fresh_duplicate_def age_def signature_def eval_defs)
  have c: "\<not> (\<exists>x \<in> set (stored state1). fresh_duplicate env_c state1
       (new_alert env_c ''latency_spike'' ''checkout-api'' ''critical'' ''again'' None ''prod'' None)
       (heap state1 x))"
    by (simp add: stored_def fresh_duplicate_def age_def signature_def eval_defs)
  have m: "create_alert env_b ''latency_spike'' ''checkout-api'' ''critical'' ''still slow'' None ''prod'' None
     state1 = Inr (0, state2)"
    using create_alert_dedup[OF w, of env_b "''latency_spike''" "''checkout-api''" "''critical''"
        "''still slow''" None "''prod''" None] b
    by (simp add: eval_defs)
  have n: "create_alert env_c ''latency_spike'' ''checkout-api'' ''critical'' ''again'' None ''prod'' None
     state1 = Inr (1, state_c)"
    by (simp add: eval_defs state_c_def)
  have i: "create_alert env_a ''latency_spike'' ''checkout-api'' ''critical'' ''p99 above threshold'' None
     ''prod'' None (init all_channels) = Inr (0, state1)"
    by (rule state1_reached)
  show ?thesis
    using w b c m n i wf_init[of all_channels] by (simp add: eval_defs state_c_def)
qed

section \<open>The claims\<close>

subsection \<open>C1: deduplication\<close>

text \<open>
  Claim C1 says that a call whose signature equals that of an active alert created
  within the deduplication window returns that alert with its count incremented, and
  that otherwise a new record is created. The code computes the age of a stored alert
  as \<^verbatim>\<open>time.time()\<close> minus \<^verbatim>\<open>datetime.fromisoformat(created_at).timestamp()\<close>, where
  \<^verbatim>\<open>created_at\<close> is the naive string of \<^verbatim>\<open>datetime.utcnow()\<close>; \<^verbatim>\<open>timestamp()\<close> takes a naive
  datetime for local time, so the computed age is the elapsed time plus the offset of
  the local zone from UTC. The theorem evaluates the code five and a half hours east of
  UTC, with the default window of 300 seconds: the first call creates the alert, the
  same call one second later finds no duplicate and creates a second active record
  with count 1, and the first record keeps count 1.
\<close>

theorem create_alert_dedup_off_utc:
  "create_alert env_east_a ''latency_spike'' ''checkout-api'' ''critical''
     ''p99 above threshold'' None ''prod'' None (init all_channels) = Inr (0, state1) \<and>
   time_time env_east_b - time_time env_east_a = 1 \<and>
   deduplication_window (config state1) = 300 \<and>
   age env_east_b (heap state1 0) = 19801 \<and>
   create_alert env_east_b ''latency_spike'' ''checkout-api'' ''critical'' ''still slow'' None
     ''prod'' None state1 = Inr (1, state_east) \<and>
   get_active_alerts None None None state_east = [0, 1] \<and>
   signature (heap state_east 0) = signature (heap state_east 1) \<and>
   count (heap state_east 0) = Some 1 \<and> count (heap state_east 1) = Some 1"
  by (simp add: get_active_alerts_def truthy_def age_def signature_def eval_defs)

subsection \<open>C2: the history\<close>

text \<open>
  Claim C2 fails as stated. The history holds the alert objects themselves, not copies,
  and only \<^verbatim>\<open>create_alert\<close> appends to it. In the example the history of \<open>state1\<close> has
  one entry, which shows count 1 and status active. After a duplicate is merged the
  history still has that one entry, and the entry shows count 2; after a resolution it
  still has that one entry, and the entry shows status resolved.
\<close>

theorem history_counterexample:
  "alert_history state1 = [0] \<and> count (heap state1 (alert_history state1 ! 0)) = Some 1 \<and>
   create_alert env_b ''latency_spike'' ''checkout-api'' ''critical'' ''still slow'' None ''prod''
     None state1 = Inr (0, state2) \<and>
   alert_history state2 = [0] \<and> count (heap state2 (alert_history state2 ! 0)) = Some 2 \<and>
   resolve_alert env_b ''id-a'' (Some ''rolled back deploy'') state1 = Inr (0, state_resolved) \<and>
   alert_history state_resolved = [0] \<and>
   status (heap state1 (alert_history state1 ! 0)) = ''active'' \<and>
   status (heap state_resolved (alert_history state_resolved ! 0)) = ''resolved''"
  by (simp add: eval_defs)

text \<open>
  Claim C2, amended. A call of \<^verbatim>\<open>create_alert\<close> that creates a record appends exactly one
  entry to the history, the new record, which at that moment is the candidate with count
  1; a call that merges into a stored alert leaves the history as it is, and so does
  \<^verbatim>\<open>resolve_alert\<close>. So the list of entries only grows at its end: no entry is removed,
  replaced or reordered.
\<close>

theorem history_append_only:
  "(\<forall>r s'. create_alert e alert_type' source' severity' message' details' environment'
              related_entities' s = Inr (r, s') \<longrightarrow>
      (if \<exists>x \<in> set (stored s). fresh_duplicate e s
            (new_alert e alert_type' source' severity' message' details' environment'
               related_entities') (heap s x)
       then alert_history s' = alert_history s
       else alert_history s' = alert_history s @ [r] \<and>
            heap s' r = (new_alert e alert_type' source' severity' message' details' environment'
                           related_entities')\<lparr>count := Some 1\<rparr>)) \<and>
   (\<forall>r s'. resolve_alert e i m s = Inr (r, s') \<longrightarrow> alert_history s' = alert_history s)"
proof -
  let ?a = "new_alert e alert_type' source' severity' message' details' environment'
              related_entities'"
  have "if \<exists>x \<in> set (stored s). fresh_duplicate e s ?a (heap s x)
        then alert_history s' = alert_history s
        else alert_history s' = alert_history s @ [r] \<and> heap s' r = ?a\<lparr>count := Some 1\<rparr>"
    if res: "create_alert e alert_type' source' severity' message' details' environment'
              related_entities' s = Inr (r, s')" for r s'
  proof (cases "check_for_duplicate e s ?a")
    case None
    then have "\<not> (\<exists>x \<in> set (stored s). fresh_duplicate e s ?a (heap s x))"
      by (simp add: check_for_duplicate_None)
    then show ?thesis
      using res unfolding create_alert_new[OF None] by auto
  next
    case (Some d)
    then have "\<exists>x \<in> set (stored s). fresh_duplicate e s ?a (heap s x)"
      using check_for_duplicate_Some by blast
    moreover have "alert_history s' = alert_history s"
      using res Some
      by (auto simp: create_alert_def update_alert_def Let_def split: option.splits)
    ultimately show ?thesis by simp
  qed
  moreover have "alert_history s' = alert_history s"
    if "resolve_alert e i m s = Inr (r, s')" for r s'
    using that by (auto simp: resolve_alert_def Let_def split: option.splits)
  ultimately show ?thesis by blast
qed

theorem history_append_only_witness:
  "create_alert env_b ''latency_spike'' ''checkout-api'' ''critical'' ''still slow'' None ''prod''
     None state1 = Inr (0, state2) \<and>
   alert_history state2 = alert_history state1 \<and>
   create_alert env_c ''latency_spike'' ''checkout-api'' ''critical'' ''again'' None ''prod'' None
     state1 = Inr (1, state_c) \<and>
   alert_history state_c = alert_history state1 @ [1] \<and>
   resolve_alert env_b ''id-a'' (Some ''rolled back deploy'') state1 = Inr (0, state_resolved) \<and>
   alert_history state_resolved = alert_history state1"
proof -
  have m: "create_alert env_b ''latency_spike'' ''checkout-api'' ''critical'' ''still slow'' None
     ''prod'' None state1 = Inr (0, state2)"
    by (simp add: eval_defs)
  have n: "create_alert env_c ''latency_spike'' ''checkout-api'' ''critical'' ''again'' None
     ''prod'' None state1 = Inr (1, state_c)"
    by (simp add: eval_defs)
  have r: "resolve_alert env_b ''id-a'' (Some ''rolled back deploy'') state1 =
     Inr (0, state_resolved)"
    by (simp add: eval_defs)
  have b: "\<exists>x \<in> set (stored state1). fresh_duplicate env_b state1
       (new_alert env_b ''latency_spike'' ''checkout-api'' ''critical'' ''still slow'' None ''prod'' None)
       (heap state1 x)"
    by (simp add: stored_def fresh_duplicate_def age_def signature_def eval_defs)
  have c: "\<not> (\<exists>x \<in> set (stored state1). fresh_duplicate env_c state1
       (new_alert env_c ''latency_spike'' ''checkout-api'' ''critical'' ''again'' None ''prod'' None)
       (heap state1 x))"
    by (simp add: stored_def fresh_duplicate_def age_def signature_def eval_defs)
  have "alert_history state2 = alert_history state1"
    using history_append_only[of env_b "''latency_spike''" "''checkout-api''" "''critical''"
      "''still slow''" None "''prod''" None state1] m b
    by (metis (no_types, lifting))
  moreover have "alert_history state_c = alert_history state1 @ [1]"
    using history_append_only[of env_c "''latency_spike''" "''checkout-api''" "''critical''"
      "''again''" None "''prod''" None state1] n c
    by (metis (no_types, lifting))
  moreover have "alert_history state_resolved = alert_history state1"
    using history_append_only[where s = state1 and e = env_b and i = "''id-a''"
        and m = "Some ''rolled back deploy''"] r
    by blast
  ultimately show ?thesis using m n r by blast
qed

subsection \<open>C3: resolving\<close>

text \<open>
  Claim C3. \<^verbatim>\<open>resolve_alert\<close> raises exactly when the identifier is not a key of the
  store, and then it raises the not-found \<^verbatim>\<open>ValueError\<close>; when the identifier is the key
  of an active alert, the call returns that alert, with status \<^verbatim>\<open>resolved\<close>,
  \<^verbatim>\<open>resolved_at\<close> set to the reading of the clock and \<^verbatim>\<open>resolution_message\<close> set to the
  message given, and with every other field as before.
\<close>

theorem resolve_alert_not_found:
  "((\<exists>err. resolve_alert e i m s = Inl err) \<longleftrightarrow> i \<notin> fst ` set (active_alerts s)) \<and>
   (i \<notin> fst ` set (active_alerts s) \<longrightarrow> resolve_alert e i m s = Inl (not_found i)) \<and>
   (\<forall>r. map_of (active_alerts s) i = Some r \<and> status (heap s r) = ''active'' \<longrightarrow>
      (\<exists>s'. resolve_alert e i m s = Inr (r, s') \<and>
         status (heap s' r) = ''resolved'' \<and>
         resolved_at (heap s' r) = Some (utcnow e 0) \<and>
         resolution_message (heap s' r) = Some m \<and>
         heap s' r = (heap s r)\<lparr>status := ''resolved'', resolved_at := Some (utcnow e 0),
                                 resolution_message := Some m\<rparr>))"
proof (cases "map_of (active_alerts s) i")
  case None
  then have "i \<notin> fst ` set (active_alerts s)" by (simp add: map_of_eq_None_iff)
  with None show ?thesis by (simp add: resolve_alert_def)
next
  case (Some r)
  then have "i \<in> fst ` set (active_alerts s)"
    by (metis map_of_eq_None_iff option.distinct(1))
  with Some show ?thesis by (simp add: resolve_alert_def Let_def)
qed

theorem resolve_alert_not_found_witness:
  "''nonexistent-id'' \<notin> fst ` set (active_alerts state1) \<and>
   resolve_alert env_b ''nonexistent-id'' None state1 =
     Inl (ValueError ''Alert with ID nonexistent-id not found'') \<and>
   map_of (active_alerts state1) ''id-a'' = Some 0 \<and> status (heap state1 0) = ''active'' \<and>
   resolve_alert env_b ''id-a'' (Some ''rolled back deploy'') state1 = Inr (0, state_resolved) \<and>
   status (heap state_resolved 0) = ''resolved'' \<and>
   resolved_at (heap state_resolved 0) = Some ''2024-01-01T00:00:01'' \<and>
   resolution_message (heap state_resolved 0) = Some (Some ''rolled back deploy'')"
  using resolve_alert_not_found[of env_b "''nonexistent-id''" None state1]
    resolve_alert_not_found[of env_b "''id-a''" "Some ''rolled back deploy''" state1]
  by (simp add: eval_defs)

subsection \<open>C4: resolving again\<close>

text \<open>
  Claim C4 fails as stated. \<^verbatim>\<open>resolve_alert\<close> does not look at the status. In the example
  the alert of \<open>state_resolved\<close> is resolved; resolving it again ten minutes later
  succeeds, overwrites \<^verbatim>\<open>resolved_at\<close> and \<^verbatim>\<open>resolution_message\<close>, and calls
  \<^verbatim>\<open>send_resolution\<close> of the three channels again.
\<close>

theorem resolve_twice_counterexample:
  "resolve_alert env_b ''id-a'' (Some ''rolled back deploy'') state1 = Inr (0, state_resolved) \<and>
   status (heap state_resolved 0) = ''resolved'' \<and>
   resolve_alert env_c ''id-a'' (Some ''again'') state_resolved =
     Inr (0, state_resolved
       \<lparr>heap := (heap state_resolved)
          (0 := (heap state_resolved 0)
             \<lparr>resolved_at := Some ''2024-01-01T00:10:00'',
              resolution_message := Some (Some ''again'')\<rparr>),
        trace := trace state_resolved @
          [Call_send_resolution ''email'' 0,
           Print_sending_resolution_email [''ops@example.com''] 0,
           Call_send_resolution ''slack'' 0,
           Requests_post (slack_webhook_url default_config) 0,
           Call_send_resolution ''pagerduty'' 0, Requests_post pagerduty_url 0]\<rparr>) \<and>
   resolved_at (heap state_resolved 0) = Some ''2024-01-01T00:00:01'' \<and>
   resolution_message (heap state_resolved 0) = Some (Some ''rolled back deploy'')"
  by (simp add: eval_defs)

text \<open>
  Claim C4, amended. For an alert whose status is already \<^verbatim>\<open>resolved\<close>, a further call
  of \<^verbatim>\<open>resolve_alert\<close> on its identifier succeeds and returns the alert: the status stays
  \<^verbatim>\<open>resolved\<close>, \<^verbatim>\<open>resolved_at\<close> and \<^verbatim>\<open>resolution_message\<close> are overwritten with the new
  reading of the clock and the new message, every other field and every other object
  is unchanged, and \<^verbatim>\<open>send_resolution\<close> is called on every channel when the severity is
  error or critical, and on none otherwise.
\<close>

theorem resolve_alert_again:
  assumes "map_of (active_alerts s) i = Some r" and "status (heap s r) = ''resolved''"
  shows "\<exists>s' evs. resolve_alert e i m s = Inr (r, s') \<and>
           heap s' r = (heap s r)\<lparr>resolved_at := Some (utcnow e 0),
                                   resolution_message := Some m\<rparr> \<and>
           status (heap s' r) = ''resolved'' \<and>
           (\<forall>x. x \<noteq> r \<longrightarrow> heap s' x = heap s x) \<and>
           active_alerts s' = active_alerts s \<and> alert_history s' = alert_history s \<and>
           trace s' = trace s @ evs \<and>
           send_resolution_calls evs =
             (if severity (heap s r) \<in> {ERROR, CRITICAL}
              then map (\<lambda>(n, _). (n, r)) (notification_services s) else [])"
proof -
  let ?b = "(heap s r)\<lparr>resolved_at := Some (utcnow e 0), resolution_message := Some m\<rparr>"
  let ?evs = "if severity (heap s r) \<notin> set [ERROR, CRITICAL] then []
              else send_resolution_notification_loop e r ?b (notification_services s)"
  have same: "(heap s r)\<lparr>status := ''resolved'', resolved_at := Some (utcnow e 0),
                          resolution_message := Some m\<rparr> = ?b"
    using assms(2) by (intro alert.equality) simp_all
  have res: "resolve_alert e i m s =
      Inr (r, send_resolution_notification e r (s\<lparr>heap := (heap s)(r := ?b)\<rparr>))"
    using assms(1) same by (simp add: resolve_alert_def Let_def)
  show ?thesis
    unfolding res
    apply (intro exI[of _ ?evs] exI conjI)
           apply (rule refl)
          apply (simp_all add: assms(2) send_resolution_notification_def
        send_resolution_notification_loop_calls)
    done
qed

theorem resolve_alert_again_witness:
  "map_of (active_alerts state_resolved) ''id-a'' = Some 0 \<and>
   status (heap state_resolved 0) = ''resolved'' \<and>
   (\<exists>s' evs. resolve_alert env_c ''id-a'' (Some ''again'') state_resolved = Inr (0, s') \<and>
      resolved_at (heap s' 0) = Some ''2024-01-01T00:10:00'' \<and>
      resolution_message (heap s' 0) = Some (Some ''again'') \<and>
      trace s' = trace state_resolved @ evs \<and>
      send_resolution_calls evs = [(''email'', 0), (''slack'', 0), (''pagerduty'', 0)])"
proof -
  have a: "map_of (active_alerts state_resolved) ''id-a'' = Some 0"
    and b: "status (heap state_resolved 0) = ''resolved''"
    by (simp_all add: eval_defs)
  from resolve_alert_again[OF a b, of env_c "Some ''again''"]
  obtain s' evs where "resolve_alert env_c ''id-a'' (Some ''again'') state_resolved = Inr (0, s')"
    and "heap s' 0 = (heap state_resolved 0)\<lparr>resolved_at := Some (utcnow env_c 0),
                                   resolution_message := Some (Some ''again'')\<rparr>"
    and "trace s' = trace state_resolved @ evs"
    and "send_resolution_calls evs =
             (if severity (heap state_resolved 0) \<in> {ERROR, CRITICAL}
              then map (\<lambda>(n, _). (n, 0)) (notification_services state_resolved) else [])"
    by blast
  then have "resolve_alert env_c ''id-a'' (Some ''again'') state_resolved = Inr (0, s') \<and>
      resolved_at (heap s' 0) = Some ''2024-01-01T00:10:00'' \<and>
      resolution_message (heap s' 0) = Some (Some ''again'') \<and>
      trace s' = trace state_resolved @ evs \<and>
      send_resolution_calls evs = [(''email'', 0), (''slack'', 0), (''pagerduty'', 0)]"
    by (simp add: eval_defs)
  then show ?thesis using a b by blast
qed

subsection \<open>C5: failure modes of creation\<close>

text \<open>
  Claim C5 fails as stated. \<^verbatim>\<open>create_alert\<close> does not validate the severity: with the
  severity \<^verbatim>\<open>bogus\<close> the call on a fresh manager succeeds, and the alert is stored with
  that severity.
\<close>

theorem create_alert_severity_counterexample:
  "''bogus'' \<notin> set [INFO, WARNING, ERROR, CRITICAL] \<and>
   \<not> isl (create_alert env_a ''latency_spike'' ''checkout-api'' ''bogus'' ''m'' None ''prod'' None
            (init default_config)) \<and>
   active_alerts (snd (projr (create_alert env_a ''latency_spike'' ''checkout-api'' ''bogus'' ''m''
      None ''prod'' None (init default_config)))) = [(''id-a'', 0)] \<and>
   active_alerts (init default_config) = [] \<and>
   severity (heap (snd (projr (create_alert env_a ''latency_spike'' ''checkout-api'' ''bogus'' ''m''
      None ''prod'' None (init default_config)))) 0) = ''bogus''"
  by (simp add: eval_defs)

text \<open>
  Claim C5, amended. For a manager whose configuration is complete, that is, provides
  a numeric \<^verbatim>\<open>deduplication_window\<close> (every value of the record \<open>config\<close> does, and the
  default configuration does), \<^verbatim>\<open>create_alert\<close> has no failure mode in any reachable
  state: for every severity string, one of the four values or not, the call succeeds
  and returns an alert record, whose severity is the one given. Nothing is said of a
  manager built from a configuration file that lacks the key.
\<close>

theorem create_alert_succeeds:
  assumes "reachable s"
  shows "\<exists>r s'. create_alert e alert_type' source' severity' message' details' environment'
             related_entities' s = Inr (r, s') \<and>
           severity (heap s' r) = severity'"
  using assms by (intro create_alert_total reachable_wf)

theorem create_alert_succeeds_witness:
  "reachable (init default_config) \<and>
   (\<exists>r s'. create_alert env_a ''latency_spike'' ''checkout-api'' ''bogus'' ''m'' None ''prod'' None
      (init default_config) = Inr (r, s') \<and> severity (heap s' r) = ''bogus'')"
  using create_alert_succeeds[OF reachable_init, of env_a "''latency_spike''" "''checkout-api''"
      "''bogus''" "''m''" None "''prod''" None default_config] reachable_init[of default_config]
  by simp

subsection \<open>C6: severity gating\<close>

text \<open>
  Claim C6. A call of \<^verbatim>\<open>create_alert\<close> with severity \<^verbatim>\<open>info\<close> leaves the trace as it is:
  no channel's \<^verbatim>\<open>send_alert\<close> is entered and nothing is printed or posted. A call of
  \<^verbatim>\<open>resolve_alert\<close> on a stored alert whose severity is neither \<^verbatim>\<open>error\<close> nor
  \<^verbatim>\<open>critical\<close> succeeds and leaves the trace as it is: no channel's \<^verbatim>\<open>send_resolution\<close>
  is entered.
\<close>

theorem severity_gating:
  "(severity' = INFO \<longrightarrow>
      (\<forall>r s'. create_alert e alert_type' source' severity' message' details' environment'
                 related_entities' s = Inr (r, s') \<longrightarrow> trace s' = trace s)) \<and>
   (\<forall>r. map_of (active_alerts s) i = Some r \<and> severity (heap s r) \<notin> {ERROR, CRITICAL} \<longrightarrow>
      (\<exists>s'. resolve_alert e i m s = Inr (r, s') \<and> trace s' = trace s))"
proof -
  have "trace s' = trace s"
    if sev: "severity' = INFO"
      and res: "create_alert e alert_type' source' severity' message' details' environment'
                 related_entities' s = Inr (r, s')" for r s'
  proof (cases "check_for_duplicate e s (new_alert e alert_type' source' severity' message' details'
                  environment' related_entities')")
    case None
    show ?thesis
      using res sev unfolding create_alert_new[OF None]
      by (auto simp: send_notifications_def new_alert_def)
  next
    case (Some d)
    then show ?thesis
      using res
      by (auto simp: create_alert_def update_alert_def Let_def split: option.splits)
  qed
  moreover have "\<exists>s'. resolve_alert e i m s = Inr (r, s') \<and> trace s' = trace s"
    if "map_of (active_alerts s) i = Some r" and "severity (heap s r) \<notin> {ERROR, CRITICAL}" for r
    using that by (simp add: resolve_alert_def send_resolution_notification_def Let_def)
  ultimately show ?thesis by blast
qed

theorem severity_gating_witness:
  "(\<exists>r s'. create_alert env_a ''latency_spike'' ''checkout-api'' INFO ''fyi'' None ''prod'' None
      (init all_channels) = Inr (r, s') \<and> trace s' = trace (init all_channels)) \<and>
   map_of (active_alerts state_w) ''id-a'' = Some 0 \<and>
   severity (heap state_w 0) = WARNING \<and> WARNING \<notin> {ERROR, CRITICAL} \<and>
   (\<exists>s'. resolve_alert env_b ''id-a'' None state_w = Inr (0, s') \<and> trace s' = trace state_w)"
proof -
  have "\<exists>r s'. create_alert env_a ''latency_spike'' ''checkout-api'' INFO ''fyi'' None ''prod'' None
      (init all_channels) = Inr (r, s')"
    using create_alert_total[OF wf_init] by blast
  then have a: "\<exists>r s'. create_alert env_a ''latency_spike'' ''checkout-api'' INFO ''fyi'' None ''prod'' None
      (init all_channels) = Inr (r, s') \<and> trace s' = trace (init all_channels)"
    using severity_gating[where severity' = INFO and e = env_a and s = "init all_channels"]
    by blast
  have b: "map_of (active_alerts state_w) ''id-a'' = Some 0 \<and>
           severity (heap state_w 0) = WARNING \<and> WARNING \<notin> {ERROR, CRITICAL}"
    by (simp add: eval_defs)
  then have "\<exists>s'. resolve_alert env_b ''id-a'' None state_w = Inr (0, s') \<and> trace s' = trace state_w"
    using severity_gating[where s = state_w and i = "''id-a''" and e = env_b and m = None] by simp
  with a b show ?thesis by blast
qed

subsection \<open>C7: fault isolation\<close>

text \<open>
  Claim C7. Whatever the environment, and so whichever channels fail, in every reachable
  state \<^verbatim>\<open>create_alert\<close> returns an alert; when it creates a record
  whose severity is not \<^verbatim>\<open>info\<close>, the calls of \<^verbatim>\<open>send_alert\<close> it adds to the trace are
  one for each configured channel, in order, and for each channel whose \<^verbatim>\<open>send_alert\<close>
  raises, the dispatcher prints the failure. Likewise \<^verbatim>\<open>resolve_alert\<close> on a stored
  identifier returns the alert; when the severity is \<^verbatim>\<open>error\<close> or \<^verbatim>\<open>critical\<close>, the
  calls of \<^verbatim>\<open>send_resolution\<close> it adds are one for each configured channel, in order,
  and each failure is printed.
\<close>

theorem fault_isolation:
  assumes "reachable s"
  shows
    "(\<exists>r s' evs. create_alert e alert_type' source' severity' message' details' environment'
                   related_entities' s = Inr (r, s') \<and>
        trace s' = trace s @ evs \<and>
        (\<not> (\<exists>x \<in> set (stored s). fresh_duplicate e s
              (new_alert e alert_type' source' severity' message' details' environment'
                 related_entities') (heap s x)) \<and> severity' \<noteq> INFO \<longrightarrow>
         send_alert_calls evs = map (\<lambda>(n, _). (n, r)) (notification_services s) \<and>
         (\<forall>(n, svc) \<in> set (notification_services s). \<forall>ex.
            snd (send_alert e svc r (heap s' r)) = Some ex \<longrightarrow> Print_failed n ex \<in> set evs))) \<and>
     (\<forall>r. map_of (active_alerts s) i = Some r \<longrightarrow>
        (\<exists>s' evs. resolve_alert e i m s = Inr (r, s') \<and>
           trace s' = trace s @ evs \<and>
           (severity (heap s r) \<in> {ERROR, CRITICAL} \<longrightarrow>
            send_resolution_calls evs = map (\<lambda>(n, _). (n, r)) (notification_services s) \<and>
            (\<forall>(n, svc) \<in> set (notification_services s). \<forall>ex.
               snd (send_resolution e svc r (heap s' r)) = Some ex \<longrightarrow>
               Print_failed_resolution n ex \<in> set evs))))"
proof -
  let ?a = "new_alert e alert_type' source' severity' message' details' environment'
              related_entities'"
  have wf: "wf s" using assms by (rule reachable_wf)
  have create: "\<exists>r s' evs. create_alert e alert_type' source' severity' message' details'
                   environment' related_entities' s = Inr (r, s') \<and>
        trace s' = trace s @ evs \<and>
        (\<not> (\<exists>x \<in> set (stored s). fresh_duplicate e s ?a (heap s x)) \<and> severity' \<noteq> INFO \<longrightarrow>
         send_alert_calls evs = map (\<lambda>(n, _). (n, r)) (notification_services s) \<and>
         (\<forall>(n, svc) \<in> set (notification_services s). \<forall>ex.
            snd (send_alert e svc r (heap s' r)) = Some ex \<longrightarrow> Print_failed n ex \<in> set evs))"
  proof (cases "check_for_duplicate e s ?a")
    case None
    let ?evs = "if severity' = INFO then []
                else send_notifications_loop e (next_ref s) (?a\<lparr>count := Some 1\<rparr>)
                       (notification_services s)"
    show ?thesis
      unfolding create_alert_new[OF None]
      apply (intro exI[of _ "next_ref s"] exI[of _ ?evs] exI conjI impI)
        apply (rule refl)
       apply (simp add: send_notifications_def new_alert_def)
      apply (auto simp: send_notifications_loop_calls send_notifications_loop_caught)
      done
  next
    case (Some d)
    then have d: "d \<in> set (stored s)" and f: "fresh_duplicate e s ?a (heap s d)"
      by (simp_all add: check_for_duplicate_Some)
    obtain c where c: "count (heap s d) = Some c" using wf_count[OF wf d] by blast
    show ?thesis
      unfolding create_alert_merge[OF wf Some c]
      using d f by (intro exI[of _ d] exI[of _ "[]"] exI) auto
  qed
  have resolve: "\<exists>s' evs. resolve_alert e i m s = Inr (r, s') \<and>
           trace s' = trace s @ evs \<and>
           (severity (heap s r) \<in> {ERROR, CRITICAL} \<longrightarrow>
            send_resolution_calls evs = map (\<lambda>(n, _). (n, r)) (notification_services s) \<and>
            (\<forall>(n, svc) \<in> set (notification_services s). \<forall>ex.
               snd (send_resolution e svc r (heap s' r)) = Some ex \<longrightarrow>
               Print_failed_resolution n ex \<in> set evs))"
    if look: "map_of (active_alerts s) i = Some r" for r
  proof -
    let ?b = "(heap s r)\<lparr>status := ''resolved'', resolved_at := Some (utcnow e 0),
                          resolution_message := Some m\<rparr>"
    let ?evs = "if severity (heap s r) \<notin> set [ERROR, CRITICAL] then []
                else send_resolution_notification_loop e r ?b (notification_services s)"
    have res: "resolve_alert e i m s =
        Inr (r, send_resolution_notification e r (s\<lparr>heap := (heap s)(r := ?b)\<rparr>))"
      using look by (simp add: resolve_alert_def Let_def)
    show ?thesis
      unfolding res
      apply (intro exI[of _ ?evs] exI conjI impI)
        apply (rule refl)
       apply (simp add: send_resolution_notification_def)
      apply (auto simp: send_resolution_notification_loop_calls
          send_resolution_notification_loop_caught)
      done
  qed
  from create resolve show ?thesis by blast
qed

theorem fault_isolation_witness:
  "reachable (init all_channels) \<and>
   create_alert env_down ''latency_spike'' ''checkout-api'' ''critical'' ''p99 above threshold''
     None ''prod'' None (init all_channels) = Inr (0, state_down) \<and>
   snd (send_alert env_down (SlackNotifier (slack_webhook_url default_config)) 0 alert_a) =
     Some (Exception ''Failed to send Slack notification: timed out'') \<and>
   send_alert_calls (trace state_down) = [(''email'', 0), (''slack'', 0), (''pagerduty'', 0)] \<and>
   Print_failed ''slack'' (Exception ''Failed to send Slack notification: timed out'')
     \<in> set (trace state_down) \<and>
   reachable state1 \<and> map_of (active_alerts state1) ''id-a'' = Some 0 \<and>
   (\<exists>s'. resolve_alert env_down ''id-a'' None state1 = Inr (0, s') \<and>
      send_resolution_calls (trace s') = [(''email'', 0), (''slack'', 0), (''pagerduty'', 0)] \<and>
      Print_failed_resolution ''slack''
        (Exception ''Failed to send Slack resolution notification: timed out'') \<in> set (trace s'))"
proof -
  have w0: "reachable (init all_channels)" by (rule reachable_init)
  have w1: "reachable state1" by (rule reachable_state1)
  note c = fault_isolation[OF w0, where e = env_down and alert_type' = "''latency_spike''"
      and source' = "''checkout-api''" and severity' = "''critical''"
      and message' = "''p99 above threshold''" and details' = None and environment' = "''prod''"
      and related_entities' = None]
  have a: "create_alert env_down ''latency_spike'' ''checkout-api'' ''critical''
     ''p99 above threshold'' None ''prod'' None (init all_channels) = Inr (0, state_down)"
    using c by (simp add: eval_defs)
  have b: "\<exists>s'. resolve_alert env_down ''id-a'' None state1 = Inr (0, s') \<and>
      send_resolution_calls (trace s') = [(''email'', 0), (''slack'', 0), (''pagerduty'', 0)] \<and>
      Print_failed_resolution ''slack''
        (Exception ''Failed to send Slack resolution notification: timed out'') \<in> set (trace s')"
    by (simp add: eval_defs)
  show ?thesis
    using w0 w1 a b by (simp add: eval_defs)
qed

subsection \<open>C8: the active view\<close>

text \<open>
  Claim C8 fails as stated. A filter given as the empty string is not applied: in the
  example the environment filter is the empty string, and the alert of environment
  \<^verbatim>\<open>prod\<close> is returned.
\<close>

theorem get_active_alerts_empty_filter_counterexample:
  "get_active_alerts (Some '''') None None state1 = [0] \<and>
   environment (heap state1 0) = ''prod'' \<and> status (heap state1 0) = ''active''"
  by (simp add: get_active_alerts_def truthy_def eval_defs)

text \<open>
  Claim C8, amended. \<^verbatim>\<open>get_active_alerts\<close> returns, in the order of the store, exactly
  the stored alerts whose status is \<^verbatim>\<open>active\<close> and which are equal, in environment,
  severity and source, to every filter that is given and is not the empty string; no
  alert of status \<^verbatim>\<open>resolved\<close> is in the result.
\<close>

theorem get_active_alerts_filter:
  "get_active_alerts environment' severity' source' s =
     filter (\<lambda>r. status (heap s r) = ''active'' \<and>
                  passes environment' (environment (heap s r)) \<and>
                  passes severity' (severity (heap s r)) \<and>
                  passes source' (source (heap s r))) (stored s) \<and>
   (\<forall>r \<in> set (get_active_alerts environment' severity' source' s).
      status (heap s r) \<noteq> ''resolved'')"
  by (simp add: get_active_alerts_def stored_def get_active_alerts_loop_filter)

theorem get_active_alerts_filter_witness:
  "get_active_alerts (Some ''prod'') (Some ''critical'') None state_c = [0, 1] \<and>
   get_active_alerts (Some ''staging'') None None state_c = [] \<and>
   get_active_alerts None None None state_resolved = [] \<and>
   stored state_resolved = [0] \<and> status (heap state_resolved 0) = ''resolved''"
  using get_active_alerts_filter[of "Some ''prod''" "Some ''critical''" None state_c]
    get_active_alerts_filter[of "Some ''staging''" None None state_c]
    get_active_alerts_filter[of None None None state_resolved]
  by (simp add: stored_def passes_def eval_defs)

subsection \<open>C9: the frame of a merge\<close>

text \<open>
  Claim C9. When \<^verbatim>\<open>create_alert\<close>, in a reachable state, finds a duplicate \<open>d\<close>, the call returns \<open>d\<close>, and the
  only change to the state is in the object \<open>d\<close>, where \<^verbatim>\<open>count\<close> is incremented and
  \<^verbatim>\<open>updated_at\<close> is set to the clock reading of \<^verbatim>\<open>_update_alert\<close>: every other field of
  \<open>d\<close> (identifier, type, source, severity, environment, message, details, related
  entities, creation time, status) keeps its value, the message and details of the new
  event appear nowhere, the store and the history are the same, and the trace is the
  same, so that no channel is invoked.
\<close>

theorem merge_frame:
  assumes "reachable s"
    and "check_for_duplicate e s (new_alert e ty src sev msg det envt rel) = Some d"
  shows "\<exists>c s'. create_alert e ty src sev msg det envt rel s = Inr (d, s') \<and>
           count (heap s d) = Some c \<and>
           heap s' d = (heap s d)\<lparr>count := Some (c + 1), updated_at := utcnow e 2\<rparr> \<and>
           (\<forall>x. x \<noteq> d \<longrightarrow> heap s' x = heap s x) \<and>
           active_alerts s' = active_alerts s \<and> alert_history s' = alert_history s \<and>
           trace s' = trace s"
proof -
  have wf: "wf s" using assms(1) by (rule reachable_wf)
  have "d \<in> set (stored s)" using assms(2) by (simp add: check_for_duplicate_Some)
  then obtain c where c: "count (heap s d) = Some c"
    using wf_count[OF wf] by blast
  show ?thesis
    using create_alert_merge[OF wf assms(2) c] c by simp
qed

theorem merge_frame_witness:
  "reachable state1 \<and>
   check_for_duplicate env_b state1
     (new_alert env_b ''latency_spike'' ''checkout-api'' ''critical'' ''still slow''
        (Some [(''p99'', ''2.4s'')]) ''prod'' None) = Some 0 \<and>
   create_alert env_b ''latency_spike'' ''checkout-api'' ''critical'' ''still slow''
        (Some [(''p99'', ''2.4s'')]) ''prod'' None state1 = Inr (0, state2) \<and>
   heap state2 0 = alert_a\<lparr>count := Some 2, updated_at := ''2024-01-01T00:00:01''\<rparr> \<and>
   message (heap state2 0) = ''p99 above threshold'' \<and> details (heap state2 0) = [] \<and>
   trace state2 = trace state1"
proof -
  have w: "reachable state1" by (rule reachable_state1)
  have d: "check_for_duplicate env_b state1
     (new_alert env_b ''latency_spike'' ''checkout-api'' ''critical'' ''still slow''
        (Some [(''p99'', ''2.4s'')]) ''prod'' None) = Some 0"
    by (simp add: eval_defs)
  from merge_frame[OF w d] show ?thesis
    using w d by (simp add: eval_defs)
qed

subsection \<open>C10: the gate of the PagerDuty notifier\<close>

text \<open>
  Claim C10. For an alert of severity \<^verbatim>\<open>info\<close> or \<^verbatim>\<open>warning\<close>, \<^verbatim>\<open>send_alert\<close> of the
  PagerDuty notifier returns normally and produces no event, so no request is posted.
  The dispatcher does call it for a warning: what the PagerDuty channel adds to the
  trace is the entry into its \<^verbatim>\<open>send_alert\<close> and nothing else.
\<close>

theorem pagerduty_send_alert_gate:
  assumes "severity a \<in> {INFO, WARNING}"
  shows "send_alert e (PagerDutyNotifier service_key) r a = ([], None) \<and>
         (severity a = WARNING \<and> heap s r = a \<and>
          notification_services s = before @ (n, PagerDutyNotifier service_key) # after \<longrightarrow>
          trace (send_notifications e r s) =
            trace s @ send_notifications_loop e r a before @
            Call_send_alert n r # send_notifications_loop e r a after)"
  using assms
  by (auto simp: send_notifications_def send_notifications_loop_append
      INFO_def WARNING_def ERROR_def CRITICAL_def)

theorem pagerduty_send_alert_gate_witness:
  "severity (heap state_w 0) \<in> {INFO, WARNING} \<and>
   send_alert env_a (PagerDutyNotifier (pagerduty_service_key default_config)) 0 (heap state_w 0) =
     ([], None) \<and>
   create_alert env_a ''latency_spike'' ''checkout-api'' ''warning'' ''p99 above threshold'' None
     ''prod'' None (init all_channels) = Inr (0, state_w) \<and>
   trace state_w =
     [Call_send_alert ''email'' 0, Print_sending_email [''ops@example.com''] 0,
      Call_send_alert ''slack'' 0, Requests_post (slack_webhook_url default_config) 0,
      Call_send_alert ''pagerduty'' 0]"
proof -
  have h: "severity (heap state_w 0) \<in> {INFO, WARNING}" by (simp add: eval_defs)
  from pagerduty_send_alert_gate[OF h, of env_a "pagerduty_service_key default_config" 0]
  have "send_alert env_a (PagerDutyNotifier (pagerduty_service_key default_config)) 0
          (heap state_w 0) = ([], None)"
    by blast
  then show ?thesis using h by (simp add: eval_defs)
qed

end
